theory Spec2Isabelle
  imports Complex_Main
begin

section \<open>Python values\<close>

text \<open>
  The program of \<^verbatim>\<open>src/models.py\<close> hands Python values to the constructor of a
  pydantic model: the keyword arguments of a call, or the object that a JSON text
  denotes. A number is an \<^verbatim>\<open>int\<close> or a \<^verbatim>\<open>float\<close>. A finite float is modelled by the
  real number it denotes: the program compares a float with zero, passes it on unchanged
  and writes its text. NaN and the infinities are outside the model.
  A dictionary is the list of its items in insertion order; where a key occurs twice
  (as it may in a JSON text) the later item wins, as in Python.
\<close>

datatype pynum = PyInt int | PyFloat real

datatype pyval =
    PyNone
  | PyBool bool
  | PyNum pynum
  | PyStr string
  | PyList "pyval list"
  | PyDict "(string \<times> pyval) list"

definition dict_get :: "(string \<times> 'v) list \<Rightarrow> string \<Rightarrow> 'v option" where
  "dict_get d k = map_of (rev d) k"

text \<open>
  The float that \<^verbatim>\<open>float(x)\<close> returns for a number, where no rounding is involved: a
  float is returned as it is, and every \<^verbatim>\<open>int\<close> of absolute value at most \<open>2\<^sup>5\<^sup>3\<close> is a
  float. Beyond, \<^verbatim>\<open>float\<close> rounds to a neighbouring float or raises \<^verbatim>\<open>OverflowError\<close>;
  that is floating-point arithmetic, and \<open>None\<close> here.
\<close>

fun exact_float :: "pynum \<Rightarrow> real option" where
  "exact_float (PyFloat x) = Some x"
| "exact_float (PyInt i) = (if \<bar>i\<bar> \<le> 2 ^ 53 then Some (of_int i) else None)"

section \<open>Exceptions\<close>

text \<open>
  \<^verbatim>\<open>InvalidPlanetNameException\<close> (lines 14-17) stores the rejected name in its attribute
  \<^verbatim>\<open>planet_name\<close> and has the message \<^verbatim>\<open>Invalid planet name: <name>\<close>.
  pydantic's \<^verbatim>\<open>ValidationError\<close> carries one entry for every field violation: the
  location of the value and the kind of the violation. \<^verbatim>\<open>UnboundLocalError\<close> is what
  Python raises when a local variable is read before it was assigned, \<^verbatim>\<open>ValueError\<close>
  when an \<^verbatim>\<open>int\<close> has too many digits to be written in decimal, and \<^verbatim>\<open>OverflowError\<close>
  when an \<^verbatim>\<open>int\<close> is too large for a float.
\<close>

datatype loc_item = Field string | Index nat

datatype error_type =
    missing
  | type_error
  | not_gt real
  | value_error string
  | json_invalid

type_synonym error_wrapper = "loc_item list \<times> error_type"

datatype exception =
    ValidationError "error_wrapper list"
  | InvalidPlanetNameException string
  | UnboundLocalError string
  | ValueError
  | OverflowError

fun planet_name :: "exception \<Rightarrow> string option" where
  "planet_name (InvalidPlanetNameException n) = Some n"
| "planet_name _ = None"

definition message :: "string \<Rightarrow> string" where
  "message n = ''Invalid planet name: '' @ n"

section \<open>What the libraries do\<close>

text \<open>
  What the program leaves to pydantic, to the \<^verbatim>\<open>json\<close> module and to the Python
  runtime is not defined here but taken as given, in one record:
  \<^item> \<open>json_dumps\<close> and \<open>json_loads\<close>, the writer and the reader of JSON texts;
    \<open>json_loads\<close> returns \<open>None\<close> for a text that it rejects;
  \<^item> \<open>float_repr\<close>, the text of a float where it is a matter of floating-point
    formatting;
  \<^item> \<open>to_str\<close>, what the validator of a \<^verbatim>\<open>str\<close> field makes of a number or a truth value:
    a text, or \<open>None\<close> when it rejects the value (pydantic 1 converts, pydantic 2 rejects);
  \<^item> \<open>to_float\<close>, what the validator of a \<^verbatim>\<open>float\<close> field makes of a truth value, of a
    text, or of an \<^verbatim>\<open>int\<close> beyond \<open>2\<^sup>5\<^sup>3\<close>: a float, a rejection, or an \<^verbatim>\<open>OverflowError\<close>
    that the validator does not catch.
\<close>

datatype 'a converted = Converted 'a | Rejected | Overflow

record library =
  json_dumps :: "pyval \<Rightarrow> string"
  json_loads :: "string \<Rightarrow> pyval option"
  float_repr :: "real \<Rightarrow> string"
  to_str :: "pyval \<Rightarrow> string option"
  to_float :: "pyval \<Rightarrow> real converted"

section \<open>The star\<close>

text \<open>
  The dataclass \<^verbatim>\<open>Star\<close> (lines 57-63) checks nothing: the temperature is the number
  it was given, an \<^verbatim>\<open>int\<close> in the program itself (line 93). The f-string of \<^verbatim>\<open>__str__\<close>
  formats it as \<^verbatim>\<open>str\<close> does. An \<^verbatim>\<open>int\<close> is written in decimal digits, with a minus sign
  when negative; with more than 4300 digits (the default limit of the interpreter) the
  conversion raises \<^verbatim>\<open>ValueError\<close> instead.
\<close>

record Star =
  name :: string
  temperature :: pynum

definition digit :: "nat \<Rightarrow> char" where
  "digit d = ''0123456789'' ! d"

function str_nat :: "nat \<Rightarrow> string" where
  "str_nat n = (if n < 10 then [digit n] else str_nat (n div 10) @ [digit (n mod 10)])"
  by pat_completeness auto
termination
  by (relation "measure id") auto

declare str_nat.simps [simp del]

definition int_max_str_digits :: nat where
  "int_max_str_digits = 4300"

definition str_int :: "int \<Rightarrow> exception + string" where
  "str_int i =
     (if 10 ^ int_max_str_digits \<le> \<bar>i\<bar> then Inl ValueError
      else Inr ((if i < 0 then ''-'' else []) @ str_nat (nat \<bar>i\<bar>)))"

text \<open>
  The text of a float. A whole number other than zero and of absolute value at most
  \<open>2\<^sup>5\<^sup>3\<close> (up to there every whole number is a float) is written as its decimal
  digits followed by \<^verbatim>\<open>.0\<close>. The text of any other float is floating-point formatting,
  and left to \<open>float_repr\<close>.
\<close>

definition str_float :: "library \<Rightarrow> real \<Rightarrow> string" where
  "str_float lib x =
     (if x \<noteq> 0 \<and> x = of_int \<lfloor>x\<rfloor> \<and> \<bar>x\<bar> \<le> 2 ^ 53
      then (if x < 0 then ''-'' else []) @ str_nat (nat \<bar>\<lfloor>x\<rfloor>\<bar>) @ ''.0''
      else float_repr lib x)"

fun str_num :: "library \<Rightarrow> pynum \<Rightarrow> exception + string" where
  "str_num lib (PyInt i) = str_int i"
| "str_num lib (PyFloat x) = Inr (str_float lib x)"

definition Star_str :: "library \<Rightarrow> Star \<Rightarrow> exception + string" where
  "Star_str lib self =
     (case str_num lib (temperature self) of
        Inl e \<Rightarrow> Inl e
      | Inr t \<Rightarrow> Inr (name self @ '' (Temperature: '' @ t @ ''K)''))"

text \<open>
  What the decimal numeral of a natural number is, independent of how \<^verbatim>\<open>str\<close> computes
  it: a text of digits, not empty, without a leading zero unless it is \<^verbatim>\<open>0\<close>, that
  denotes the number.
\<close>

definition decimal_value :: "string \<Rightarrow> nat" where
  "decimal_value ds = foldl (\<lambda>v c. 10 * v + (of_char c - 48)) 0 ds"

definition decimal_numeral :: "string \<Rightarrow> nat \<Rightarrow> bool" where
  "decimal_numeral ds m \<longleftrightarrow>
     ds \<noteq> [] \<and> set ds \<subseteq> set ''0123456789'' \<and> (hd ds = CHR ''0'' \<longrightarrow> ds = ''0'') \<and>
     decimal_value ds = m"

section \<open>The planet model\<close>

datatype PlanetEnum = MERCURY | VENUS | EARTH | MARS

definition value2member_map :: "(string \<times> PlanetEnum) list" where
  "value2member_map =
     [(''Mercury'', MERCURY), (''Venus'', VENUS), (''Earth'', EARTH), (''Mars'', MARS)]"

record AstronomicalBody =
  name :: string
  radius :: real
  atmosphere_composition :: "string list"

text \<open>The two validators of the class (lines 34-44). A \<^verbatim>\<open>ValueError\<close> is its message.\<close>

definition validate_name :: "string \<Rightarrow> exception + string" where
  "validate_name v =
     (if dict_get value2member_map v = None then Inl (InvalidPlanetNameException v)
      else Inr v)"

definition validate_radius :: "real \<Rightarrow> string + real" where
  "validate_radius v =
     (if v \<le> 0 then Inl ''Radius must be a positive number.'' else Inr v)"

text \<open>
  The validators of the declared types. A text is a \<^verbatim>\<open>str\<close>, and a number without
  rounding is a \<^verbatim>\<open>float\<close>. \<^verbatim>\<open>None\<close>, a list and a dictionary are neither. What becomes of
  the other values is the libraries' choice, \<open>to_str\<close> and \<open>to_float\<close>.
\<close>

fun as_str :: "library \<Rightarrow> pyval \<Rightarrow> string option" where
  "as_str lib (PyStr s) = Some s"
| "as_str lib (PyNum n) = to_str lib (PyNum n)"
| "as_str lib (PyBool b) = to_str lib (PyBool b)"
| "as_str lib _ = None"

fun as_float :: "library \<Rightarrow> pyval \<Rightarrow> real converted" where
  "as_float lib (PyNum n) =
     (case exact_float n of Some x \<Rightarrow> Converted x | None \<Rightarrow> to_float lib (PyNum n))"
| "as_float lib (PyBool b) = to_float lib (PyBool b)"
| "as_float lib (PyStr s) = to_float lib (PyStr s)"
| "as_float lib _ = Rejected"

text \<open>
  Field validation, as pydantic runs it for the three declarations of lines 30-32. The
  fields are validated in the order of their declaration. A field that is absent is
  reported as \<open>missing\<close>. A value goes through the validator of the declared type, then
  through the constraint of the \<^verbatim>\<open>Field\<close> (\<^verbatim>\<open>gt=0\<close> for the radius), then through the
  validator method of the class; the first violation ends the validation of that field.
  A \<^verbatim>\<open>ValueError\<close> raised by a validator method becomes an entry of the
  \<^verbatim>\<open>ValidationError\<close>; any other exception, so \<^verbatim>\<open>InvalidPlanetNameException\<close>,
  leaves the constructor at once.
\<close>

definition name_field :: "library \<Rightarrow> pyval option \<Rightarrow> exception + (error_wrapper list + string)" where
  "name_field lib v =
     (case v of
        None \<Rightarrow> Inr (Inl [([Field ''name''], missing)])
      | Some x \<Rightarrow>
          (case as_str lib x of
             None \<Rightarrow> Inr (Inl [([Field ''name''], type_error)])
           | Some s \<Rightarrow>
               (case validate_name s of Inl e \<Rightarrow> Inl e | Inr s' \<Rightarrow> Inr (Inr s'))))"

definition radius_field :: "library \<Rightarrow> pyval option \<Rightarrow> exception + (error_wrapper list + real)" where
  "radius_field lib v =
     (case v of
        None \<Rightarrow> Inr (Inl [([Field ''radius''], missing)])
      | Some x \<Rightarrow>
          (case as_float lib x of
             Overflow \<Rightarrow> Inl OverflowError
           | Rejected \<Rightarrow> Inr (Inl [([Field ''radius''], type_error)])
           | Converted f \<Rightarrow>
               (if f > 0 then
                  (case validate_radius f of
                     Inl m \<Rightarrow> Inr (Inl [([Field ''radius''], value_error m)])
                   | Inr f' \<Rightarrow> Inr (Inr f'))
                else Inr (Inl [([Field ''radius''], not_gt 0)]))))"

fun item_errors :: "library \<Rightarrow> nat \<Rightarrow> pyval list \<Rightarrow> error_wrapper list" where
  "item_errors lib i [] = []"
| "item_errors lib i (x # xs) =
     (case as_str lib x of
        Some s \<Rightarrow> []
      | None \<Rightarrow> [([Field ''atmosphere_composition'', Index i], type_error)])
     @ item_errors lib (Suc i) xs"

fun str_items :: "library \<Rightarrow> pyval list \<Rightarrow> string list" where
  "str_items lib [] = []"
| "str_items lib (x # xs) =
     (case as_str lib x of Some s \<Rightarrow> [s] | None \<Rightarrow> []) @ str_items lib xs"

definition atmosphere_field :: "library \<Rightarrow> pyval option \<Rightarrow> error_wrapper list + string list" where
  "atmosphere_field lib v =
     (case v of
        None \<Rightarrow> Inl [([Field ''atmosphere_composition''], missing)]
      | Some (PyList xs) \<Rightarrow>
          (if item_errors lib 0 xs = [] then Inr (str_items lib xs)
           else Inl (item_errors lib 0 xs))
      | Some _ \<Rightarrow> Inl [([Field ''atmosphere_composition''], type_error)])"

fun errors_of :: "error_wrapper list + 'a \<Rightarrow> error_wrapper list" where
  "errors_of (Inl es) = es"
| "errors_of (Inr _) = []"

text \<open>
  The constructor \<^verbatim>\<open>AstronomicalBody(**data)\<close>. Only the three declared fields are
  looked up: the class has no \<^verbatim>\<open>Config\<close>, and by default pydantic ignores any other key.
\<close>

definition AstronomicalBody_init ::
  "library \<Rightarrow> (string \<times> pyval) list \<Rightarrow> exception + AstronomicalBody" where
  "AstronomicalBody_init lib data =
     (case name_field lib (dict_get data ''name'') of
        Inl e \<Rightarrow> Inl e
      | Inr n \<Rightarrow>
          (case radius_field lib (dict_get data ''radius'') of
             Inl e \<Rightarrow> Inl e
           | Inr r \<Rightarrow>
               (let a = atmosphere_field lib (dict_get data ''atmosphere_composition'')
                in case (n, r, a) of
                     (Inr n', Inr r', Inr a') \<Rightarrow>
                       Inr \<lparr>name = n', radius = r', atmosphere_composition = a'\<rparr>
                   | _ \<Rightarrow> Inl (ValidationError (errors_of n @ errors_of r @ errors_of a)))))"

text \<open>
  The call of line 77, \<^verbatim>\<open>AstronomicalBody(name=.., radius=.., atmosphere_composition=..)\<close>:
  the name is a text and the radius a float (\<^verbatim>\<open>argparse\<close> has converted them); the
  atmosphere is whatever the caller passes. \<open>construct\<close> is the call with a list of texts.
\<close>

definition AstronomicalBody_kw ::
  "library \<Rightarrow> string \<Rightarrow> real \<Rightarrow> pyval \<Rightarrow> exception + AstronomicalBody" where
  "AstronomicalBody_kw lib n r a =
     AstronomicalBody_init lib
       [(''name'', PyStr n), (''radius'', PyNum (PyFloat r)), (''atmosphere_composition'', a)]"

definition construct ::
  "library \<Rightarrow> string \<Rightarrow> real \<Rightarrow> string list \<Rightarrow> exception + AstronomicalBody" where
  "construct lib n r a = AstronomicalBody_kw lib n r (PyList (map PyStr a))"

text \<open>
  Serialization (lines 46-53). \<^verbatim>\<open>self.json()\<close> writes the dictionary of the three fields,
  in the order of their declaration, as a JSON text; \<^verbatim>\<open>cls.parse_raw\<close> reads a JSON text
  and calls the constructor on the object it denotes, and reports a text that is no JSON,
  or no JSON object, as a \<^verbatim>\<open>ValidationError\<close>.
\<close>

definition dict :: "AstronomicalBody \<Rightarrow> (string \<times> pyval) list" where
  "dict self =
     [(''name'', PyStr (name self)),
      (''radius'', PyNum (PyFloat (radius self))),
      (''atmosphere_composition'', PyList (map PyStr (atmosphere_composition self)))]"

definition json :: "library \<Rightarrow> AstronomicalBody \<Rightarrow> string" where
  "json lib self = json_dumps lib (PyDict (dict self))"

definition parse_obj :: "library \<Rightarrow> pyval \<Rightarrow> exception + AstronomicalBody" where
  "parse_obj lib obj =
     (case obj of
        PyDict data \<Rightarrow> AstronomicalBody_init lib data
      | _ \<Rightarrow> Inl (ValidationError [([Field ''__root__''], type_error)]))"

definition parse_raw :: "library \<Rightarrow> string \<Rightarrow> exception + AstronomicalBody" where
  "parse_raw lib b =
     (case json_loads lib b of
        None \<Rightarrow> Inl (ValidationError [([Field ''__root__''], json_invalid)])
      | Some obj \<Rightarrow> parse_obj lib obj)"

definition to_json :: "library \<Rightarrow> AstronomicalBody \<Rightarrow> string" where
  "to_json lib self = json lib self"

definition from_json :: "library \<Rightarrow> string \<Rightarrow> exception + AstronomicalBody" where
  "from_json lib json_str = parse_raw lib json_str"

text \<open>
  Assignment to an attribute, here \<^verbatim>\<open>body.radius = v\<close>. The class declares no
  \<^verbatim>\<open>Config\<close>, so pydantic's defaults hold: an assignment to a declared field is allowed
  and the validators are not run on it.
\<close>

definition setattr_radius :: "AstronomicalBody \<Rightarrow> real \<Rightarrow> AstronomicalBody" where
  "setattr_radius self v = self\<lparr>radius := v\<rparr>"

text \<open>The two constraints on the fields of a planet.\<close>

definition constraints :: "AstronomicalBody \<Rightarrow> bool" where
  "constraints self \<longleftrightarrow>
     name self \<in> {''Mercury'', ''Venus'', ''Earth'', ''Mars''} \<and> radius self > 0"

section \<open>The program\<close>

text \<open>
  \<^verbatim>\<open>main\<close> (lines 67-109) after \<^verbatim>\<open>argparse\<close> has read the command line: \<^verbatim>\<open>args.name\<close>
  is a text, \<^verbatim>\<open>args.radius\<close> a float, and \<^verbatim>\<open>args.atmosphere\<close> a list of texts, or
  \<^verbatim>\<open>None\<close> when the option is not given. What the program does to the outside is the
  sequence of its \<^verbatim>\<open>print\<close> calls and of its calls of the GUI library. A \<^verbatim>\<open>print\<close> call
  is the list of its arguments; a model and a \<^verbatim>\<open>ValidationError\<close> are printed in
  pydantic's own format, so they are kept as they are.
\<close>

record Namespace =
  args_name :: string
  args_radius :: real
  args_atmosphere :: "string list option"

datatype printed = Text string | Model AstronomicalBody | Errors "error_wrapper list"

datatype dpg_call =
    create_context
  | window string
  | add_text string
  | create_viewport string nat nat
  | setup_dearpygui
  | show_viewport
  | start_dearpygui
  | destroy_context

datatype event = Print "printed list" | Dpg dpg_call

fun atmosphere_value :: "string list option \<Rightarrow> pyval" where
  "atmosphere_value None = PyNone"
| "atmosphere_value (Some a) = PyList (map PyStr a)"

fun join :: "string \<Rightarrow> string list \<Rightarrow> string" where
  "join sep [] = []"
| "join sep [x] = x"
| "join sep (x # xs) = x @ sep @ join sep xs"

text \<open>
  The body of the \<^verbatim>\<open>try\<close> statement (lines 77-85): what it prints, the value of the
  local variable \<^verbatim>\<open>body\<close> when it is left (\<open>None\<close> while nothing was assigned to it),
  and the exception that left it, if any.
\<close>

definition try_block ::
  "library \<Rightarrow> Namespace \<Rightarrow> event list \<times> AstronomicalBody option \<times> exception option" where
  "try_block lib args =
     (case AstronomicalBody_kw lib (args_name args) (args_radius args)
             (atmosphere_value (args_atmosphere args)) of
        Inl e \<Rightarrow> ([], None, Some e)
      | Inr body \<Rightarrow>
          (let out = [Print [Text ''Astronomical Body Created:'', Model body],
                      Print [Text ''Serialized to JSON:'', Text (to_json lib body)]];
               json_data = to_json lib body;
               out = out @ [Print [Text (CHR 0x0A # ''Deserializing from JSON...'')]]
           in case from_json lib json_data of
                Inl e \<Rightarrow> (out, Some body, Some e)
              | Inr restored_body \<Rightarrow>
                  (out @ [Print [Text ''Restored Astronomical Body:'', Model restored_body]],
                   Some body, None)))"

text \<open>
  The two \<^verbatim>\<open>except\<close> clauses (lines 87-90): the prints of the clause that catches the
  exception, or the exception when no clause does.
\<close>

fun except :: "exception \<Rightarrow> event list + exception" where
  "except (ValidationError es) = Inl [Print [Text ''Validation Error:'', Errors es]]"
| "except (InvalidPlanetNameException n) = Inl [Print [Text (message n)]]"
| "except e = Inr e"

text \<open>
  The window (lines 97-109). Line 100 reads the local variable \<^verbatim>\<open>body\<close>; Python raises
  \<^verbatim>\<open>UnboundLocalError\<close> there when the \<^verbatim>\<open>try\<close> statement has not assigned to it.
  Line 103 renders the star once more.
\<close>

definition gui :: "library \<Rightarrow> AstronomicalBody option \<Rightarrow> Star \<Rightarrow> event list \<times> (exception + unit)" where
  "gui lib body sun =
     (let out = [Dpg create_context, Dpg (window ''Astronomical GUI'')]
      in case body of
           None \<Rightarrow> (out, Inl (UnboundLocalError ''body''))
         | Some b \<Rightarrow>
             (let out = out @
                    [Dpg (add_text (''Planet Name: '' @ AstronomicalBody.name b)),
                     Dpg (add_text (''Radius: '' @ str_float lib (radius b) @ '' km'')),
                     Dpg (add_text (''Atmosphere: '' @ join '', '' (atmosphere_composition b)))]
              in case Star_str lib sun of
                   Inl e \<Rightarrow> (out, Inl e)
                 | Inr s \<Rightarrow>
                     (out @
                      [Dpg (add_text (''Star: '' @ s)),
                       Dpg (create_viewport ''Astronomical Simulator'' 600 300),
                       Dpg setup_dearpygui, Dpg show_viewport, Dpg start_dearpygui,
                       Dpg destroy_context],
                      Inr ())))"

text \<open>
  The whole of \<^verbatim>\<open>main\<close>: its outputs in order, and how it ends, by returning (\<open>Inr\<close>)
  or by an exception that nothing catches (\<open>Inl\<close>).
\<close>

definition main :: "library \<Rightarrow> Namespace \<Rightarrow> event list \<times> (exception + unit)" where
  "main lib args =
     (case try_block lib args of
        (out, body, raised) \<Rightarrow>
          (case (case raised of None \<Rightarrow> Inl [] | Some e \<Rightarrow> except e) of
             Inr e \<Rightarrow> (out, Inl e)
           | Inl handled \<Rightarrow>
               (let sun = \<lparr>Star.name = ''Sun'', temperature = PyInt 5778\<rparr>;
                    out = out @ handled
                in case Star_str lib sun of
                     Inl e \<Rightarrow> (out, Inl e)
                   | Inr s \<Rightarrow>
                       (let out = out @ [Print [Text s]];
                            (shown, result) = gui lib body sun
                        in (out @ shown, result)))))"

text \<open>Whether an outcome is a failure of the kind \<^verbatim>\<open>ValidationError\<close>.\<close>

fun raises_ValidationError :: "exception + 'a \<Rightarrow> bool" where
  "raises_ValidationError (Inl (ValidationError es)) = True"
| "raises_ValidationError _ = False"

section \<open>Example inputs\<close>

text \<open>
  Three JSON texts, each with the object it denotes, and a library whose reader knows
  these three texts only, whose validators convert nothing, and whose writers write the
  empty text. It stands for the libraries where a statement below is applied to a
  concrete input. The first object has an \<^verbatim>\<open>int\<close> as radius, and a negative one; the
  second an unknown name; the third two keys that the model does not declare.
\<close>

definition mars_text :: string where
  \<open>mars_text = ''{"name":"Mars","radius":-100,"atmosphere_composition":[]}''\<close>

definition mars_object :: pyval where
  "mars_object =
     PyDict [(''name'', PyStr ''Mars''), (''radius'', PyNum (PyInt (- 100))),
             (''atmosphere_composition'', PyList [])]"

definition pluto_text :: string where
  \<open>pluto_text = ''{"name":"Pluto","radius":1188.0,"atmosphere_composition":["N2"]}''\<close>

definition pluto_object :: pyval where
  "pluto_object =
     PyDict [(''name'', PyStr ''Pluto''), (''radius'', PyNum (PyFloat 1188)),
             (''atmosphere_composition'', PyList [PyStr ''N2''])]"

definition venus_text :: string where
  \<open>venus_text =
     ''{"moons":0,"name":"Venus","radius":6052.0,"atmosphere_composition":["CO2","N2"],"retrograde":true}''\<close>

definition venus_object :: pyval where
  "venus_object =
     PyDict [(''moons'', PyNum (PyInt 0)), (''name'', PyStr ''Venus''),
             (''radius'', PyNum (PyFloat 6052)),
             (''atmosphere_composition'', PyList [PyStr ''CO2'', PyStr ''N2'']),
             (''retrograde'', PyBool True)]"

definition example_texts :: "(string \<times> pyval) list" where
  "example_texts =
     [(mars_text, mars_object), (pluto_text, pluto_object), (venus_text, venus_object)]"

definition example_library :: library where
  "example_library =
     \<lparr>json_dumps = (\<lambda>v. []), json_loads = map_of example_texts, float_repr = (\<lambda>x. []),
      to_str = (\<lambda>v. None), to_float = (\<lambda>v. Rejected)\<rparr>"

text \<open>The command line \<^verbatim>\<open>--name Pluto --radius 1188.0 --atmosphere N2\<close>.\<close>

definition pluto_args :: Namespace where
  "pluto_args =
     \<lparr>args_name = ''Pluto'', args_radius = 1188, args_atmosphere = Some [''N2'']\<rparr>"

section \<open>Properties of the parts\<close>

subsection \<open>Dictionaries and the examples\<close>

lemma dict_get_kw:
  "dict_get [(''name'', n), (''radius'', r), (''atmosphere_composition'', a)] ''name'' = Some n"
  "dict_get [(''name'', n), (''radius'', r), (''atmosphere_composition'', a)] ''radius'' = Some r"
  "dict_get [(''name'', n), (''radius'', r), (''atmosphere_composition'', a)]
     ''atmosphere_composition'' = Some a"
  by (simp_all add: dict_get_def)

text \<open>In a dictionary the last item of a key is the one that counts.\<close>

lemma dict_get_simps:
  "dict_get [] k = None"
  "dict_get (d @ [(k, v)]) k = Some v"
  "k' \<noteq> k \<Longrightarrow> dict_get (d @ [(k', v)]) k = dict_get d k"
  by (simp_all add: dict_get_def)

lemma example_loads:
  "json_loads example_library mars_text = Some mars_object"
  "json_loads example_library pluto_text = Some pluto_object"
  "json_loads example_library venus_text = Some venus_object"
  by (simp_all add: example_library_def example_texts_def mars_text_def
      pluto_text_def venus_text_def)

subsection \<open>The validators of the fields\<close>

lemma validate_name_member:
  "n \<in> {''Mercury'', ''Venus'', ''Earth'', ''Mars''} \<Longrightarrow> validate_name n = Inr n"
  by (auto simp: validate_name_def dict_get_def value2member_map_def)

lemma validate_name_other:
  "n \<notin> {''Mercury'', ''Venus'', ''Earth'', ''Mars''} \<Longrightarrow>
   validate_name n = Inl (InvalidPlanetNameException n)"
  by (auto simp: validate_name_def dict_get_def value2member_map_def)

lemma validate_name_Inr:
  "validate_name n = Inr m \<Longrightarrow> m = n \<and> n \<in> {''Mercury'', ''Venus'', ''Earth'', ''Mars''}"
  by (auto simp: validate_name_def dict_get_def value2member_map_def split: if_splits)

lemma name_field_str:
  "name_field lib (Some (PyStr n)) =
     (case validate_name n of Inl e \<Rightarrow> Inl e | Inr s \<Rightarrow> Inr (Inr s))"
  by (simp add: name_field_def)

lemma name_field_Inr:
  "name_field lib v = Inr (Inr n) \<Longrightarrow> n \<in> {''Mercury'', ''Venus'', ''Earth'', ''Mars''}"
  by (auto simp: name_field_def split: option.splits sum.splits dest: validate_name_Inr)

lemma name_field_Inl: "name_field lib v = Inl e \<Longrightarrow> \<exists>n. e = InvalidPlanetNameException n"
  by (auto simp: name_field_def validate_name_def split: option.splits if_splits)

text \<open>
  The check of \<^verbatim>\<open>validate_radius\<close> repeats the constraint \<^verbatim>\<open>gt=0\<close> of the field, which
  runs first: no value that reaches the method is rejected by it.
\<close>

lemma validate_radius_after_gt: "0 < v \<Longrightarrow> validate_radius v = Inr v"
  by (simp add: validate_radius_def)

lemma radius_field_exact:
  "exact_float x = Some r \<Longrightarrow>
   radius_field lib (Some (PyNum x)) =
     (if 0 < r then Inr (Inr r) else Inr (Inl [([Field ''radius''], not_gt 0)]))"
  by (simp add: radius_field_def validate_radius_after_gt)

lemma radius_field_Inr: "radius_field lib v = Inr (Inr r) \<Longrightarrow> 0 < r"
  by (auto simp: radius_field_def validate_radius_def
      split: option.splits converted.splits if_splits sum.splits)

lemma radius_field_Inl: "radius_field lib v = Inl e \<Longrightarrow> e = OverflowError"
  by (auto simp: radius_field_def
      split: option.splits converted.splits if_splits sum.splits)

lemma item_errors_strs: "item_errors lib i (map PyStr a) = []"
  by (induction a arbitrary: i) simp_all

lemma str_items_strs: "str_items lib (map PyStr a) = a"
  by (induction a) simp_all

lemma atmosphere_field_strs: "atmosphere_field lib (Some (PyList (map PyStr a))) = Inr a"
  by (simp add: atmosphere_field_def item_errors_strs str_items_strs)

lemma atmosphere_field_None:
  "atmosphere_field lib (Some PyNone) = Inl [([Field ''atmosphere_composition''], type_error)]"
  by (simp add: atmosphere_field_def)

subsection \<open>The constructor\<close>

lemma init_valid:
  assumes "dict_get data ''name'' = Some (PyStr n)"
    and "n \<in> {''Mercury'', ''Venus'', ''Earth'', ''Mars''}"
    and "dict_get data ''radius'' = Some (PyNum x)" and "exact_float x = Some r" and "0 < r"
    and "dict_get data ''atmosphere_composition'' = Some (PyList (map PyStr a))"
  shows "AstronomicalBody_init lib data =
         Inr \<lparr>name = n, radius = r, atmosphere_composition = a\<rparr>"
  using assms
  by (simp add: AstronomicalBody_init_def name_field_str validate_name_member
      radius_field_exact atmosphere_field_strs)

lemma init_other_name:
  assumes "dict_get data ''name'' = Some (PyStr n)"
    and "n \<notin> {''Mercury'', ''Venus'', ''Earth'', ''Mars''}"
  shows "AstronomicalBody_init lib data = Inl (InvalidPlanetNameException n)"
  using assms
  by (simp add: AstronomicalBody_init_def name_field_str validate_name_other)

lemma init_nonpos_radius:
  assumes "dict_get data ''name'' = Some (PyStr n)"
    and "n \<in> {''Mercury'', ''Venus'', ''Earth'', ''Mars''}"
    and "dict_get data ''radius'' = Some (PyNum x)" and "exact_float x = Some r" and "r \<le> 0"
  shows "AstronomicalBody_init lib data =
         Inl (ValidationError (([Field ''radius''], not_gt 0) #
                errors_of (atmosphere_field lib (dict_get data ''atmosphere_composition''))))"
  using assms
  by (simp add: AstronomicalBody_init_def name_field_str validate_name_member
      radius_field_exact Let_def split: sum.splits)

lemma init_constraints: "AstronomicalBody_init lib data = Inr b \<Longrightarrow> constraints b"
  by (auto simp: AstronomicalBody_init_def constraints_def Let_def
      split: sum.splits dest: name_field_Inr radius_field_Inr)

lemma init_Inl:
  assumes "AstronomicalBody_init lib data = Inl e"
  shows "(\<exists>es. e = ValidationError es) \<or> (\<exists>n. e = InvalidPlanetNameException n) \<or>
         e = OverflowError"
proof (cases "name_field lib (dict_get data ''name'')")
  case (Inl x)
  with assms have "e = x" by (simp add: AstronomicalBody_init_def)
  with Inl show ?thesis by (auto dest: name_field_Inl)
next
  case n: (Inr x)
  show ?thesis
  proof (cases "radius_field lib (dict_get data ''radius'')")
    case (Inl y)
    with assms n have "e = y" by (simp add: AstronomicalBody_init_def)
    with Inl show ?thesis by (auto dest: radius_field_Inl)
  next
    case (Inr y)
    with assms n show ?thesis
      by (auto simp: AstronomicalBody_init_def Let_def split: sum.splits)
  qed
qed

lemma exact_float_cases:
  "x = PyFloat r \<or> x = PyInt i \<and> \<bar>i\<bar> \<le> 2 ^ 53 \<and> r = of_int i \<Longrightarrow> exact_float x = Some r"
  by auto

lemma init_exact:
  assumes "dict_get data ''name'' = Some (PyStr n)"
    and "dict_get data ''radius'' = Some (PyNum x)" and "exact_float x = Some r"
    and "dict_get data ''atmosphere_composition'' = Some (PyList (map PyStr a))"
  shows "AstronomicalBody_init lib data = construct lib n r a"
  using assms
  by (simp add: construct_def AstronomicalBody_kw_def AstronomicalBody_init_def dict_get_kw
      radius_field_exact split: sum.splits)

lemma construct_member:
  assumes "n \<in> {''Mercury'', ''Venus'', ''Earth'', ''Mars''}" and "0 < r"
  shows "construct lib n r a = Inr \<lparr>name = n, radius = r, atmosphere_composition = a\<rparr>"
  using assms
  by (simp add: construct_def AstronomicalBody_kw_def init_valid [where x = "PyFloat r"]
      dict_get_kw)

lemma construct_other_name:
  assumes "n \<notin> {''Mercury'', ''Venus'', ''Earth'', ''Mars''}"
  shows "AstronomicalBody_kw lib n r v = Inl (InvalidPlanetNameException n)"
  using assms by (simp add: AstronomicalBody_kw_def init_other_name dict_get_kw)

lemma kw_Inl:
  assumes "AstronomicalBody_kw lib n r v = Inl e"
  shows "(\<exists>es. e = ValidationError es) \<or> (\<exists>m. e = InvalidPlanetNameException m)"
proof -
  have "radius_field lib (Some (PyNum (PyFloat r))) \<noteq> Inl OverflowError"
    by (simp add: radius_field_exact)
  moreover have "name_field lib (Some (PyStr n)) \<noteq> Inl OverflowError"
    by (auto dest: name_field_Inl)
  ultimately have "e \<noteq> OverflowError"
    using assms
    by (auto simp: AstronomicalBody_kw_def AstronomicalBody_init_def dict_get_kw Let_def
        split: sum.splits)
  with assms show ?thesis
    by (auto simp: AstronomicalBody_kw_def dest: init_Inl)
qed

text \<open>
  The part of the round trip that is the program's own: the constructor accepts the
  dictionary of every record that satisfies the constraints, and returns that record.
\<close>

lemma dict_init: "constraints b \<Longrightarrow> AstronomicalBody_init lib (dict b) = Inr b"
  by (simp add: constraints_def dict_def init_valid [where x = "PyFloat (radius b)"] dict_get_kw)

text \<open>What \<^verbatim>\<open>to_json\<close> hands to the writer: the three fields under their names.\<close>

lemma to_json_fields:
  "to_json lib b =
     json_dumps lib (PyDict [(''name'', PyStr (name b)),
                         (''radius'', PyNum (PyFloat (radius b))),
                         (''atmosphere_composition'', PyList (map PyStr (atmosphere_composition b)))])"
  by (simp add: to_json_def json_def dict_def)

lemma from_json_object:
  "json_loads lib payload = Some (PyDict data) \<Longrightarrow>
   from_json lib payload = AstronomicalBody_init lib data"
  by (simp add: from_json_def parse_raw_def parse_obj_def)

lemma from_json_Inl:
  assumes "from_json lib payload = Inl e"
  shows "(\<exists>es. e = ValidationError es) \<or> (\<exists>n. e = InvalidPlanetNameException n) \<or>
         e = OverflowError"
  using assms
  by (auto simp: from_json_def parse_raw_def parse_obj_def
      split: option.splits pyval.splits dest: init_Inl)

subsection \<open>Texts of numbers\<close>

lemma str_nat_digit: "n < 10 \<Longrightarrow> str_nat n = [digit n]"
  by (simp add: str_nat.simps)

lemma str_nat_step: "10 \<le> n \<Longrightarrow> str_nat n = str_nat (n div 10) @ [digit (n mod 10)]"
  by (subst str_nat.simps) simp



lemma decimal_value_snoc:
  "decimal_value (ds @ [c]) = 10 * decimal_value ds + (of_char c - 48)"
  by (simp add: decimal_value_def)

lemma decimal_value_single: "decimal_value [c] = of_char c - 48"
  by (simp add: decimal_value_def)


text \<open>The decimal numeral of a number is unique: \<open>str_nat\<close> writes the only one.\<close>

lemma digit_of_char:
  assumes "c \<in> set ''0123456789''"
  shows "of_char c - 48 < (10::nat)" and "digit (of_char c - 48) = c"
  using assms by (auto simp: digit_def)

lemma decimal_value_pos:
  assumes "ds \<noteq> []" and "set ds \<subseteq> set ''0123456789''" and "hd ds \<noteq> CHR ''0''"
  shows "0 < decimal_value ds"
  using assms
proof (induction ds rule: rev_induct)
  case Nil
  then show ?case by simp
next
  case (snoc c ds)
  show ?case
  proof (cases "ds = []")
    case True
    with snoc.prems have "c \<in> set ''0123456789''" "c \<noteq> CHR ''0''" by simp_all
    then have "0 < (of_char c - 48 :: nat)" by auto
    with True show ?thesis by (simp add: decimal_value_single)
  next
    case False
    with snoc have "0 < decimal_value ds" by simp
    then show ?thesis by (simp add: decimal_value_snoc)
  qed
qed

lemma decimal_numeral_unique: "decimal_numeral ds m \<Longrightarrow> ds = str_nat m"
proof (induction m arbitrary: ds rule: str_nat.induct)
  case (1 n)
  from "1.prems" have ne: "ds \<noteq> []" and dig: "set ds \<subseteq> set ''0123456789''"
    and lead: "hd ds = CHR ''0'' \<longrightarrow> ds = ''0''" and val: "decimal_value ds = n"
    by (simp_all add: decimal_numeral_def)
  from ne obtain es c where ds: "ds = es @ [c]"
    by (cases ds rule: rev_cases) auto
  with dig have c: "c \<in> set ''0123456789''" and es: "set es \<subseteq> set ''0123456789''"
    by simp_all
  from val ds have n: "n = 10 * decimal_value es + (of_char c - 48)"
    by (simp add: decimal_value_snoc)
  show ?case
  proof (cases "es = []")
    case True
    with n digit_of_char [OF c] have "n < 10" "digit n = c"
      by (simp_all add: decimal_value_def)
    with True ds show ?thesis by (simp add: str_nat_digit)
  next
    case False
    with ds lead have h: "hd es \<noteq> CHR ''0''"
      by (cases es) auto
    with False es have pos: "0 < decimal_value es" by (rule decimal_value_pos)
    with n have ge: "\<not> n < 10" by simp
    from n digit_of_char(1) [OF c] have dv: "n div 10 = decimal_value es"
      and md: "n mod 10 = of_char c - 48" by simp_all
    from False es h dv have "decimal_numeral es (n div 10)"
      by (simp add: decimal_numeral_def)
    with ge "1.IH" have "es = str_nat (n div 10)" by simp
    moreover from md digit_of_char(2) [OF c] have "digit (n mod 10) = c" by simp
    ultimately show ?thesis
      using ge ds by (simp add: str_nat_step)
  qed
qed

lemma small_int: "\<bar>i\<bar> < 10 ^ 4 \<Longrightarrow> \<not> 10 ^ int_max_str_digits \<le> \<bar>i :: int\<bar>"
proof -
  assume a: "\<bar>i\<bar> < 10 ^ 4"
  have "(10::int) ^ 4 \<le> 10 ^ int_max_str_digits"
    unfolding int_max_str_digits_def by (rule power_increasing) simp_all
  with a show ?thesis by linarith
qed

lemma sun_text:
  "Star_str lib \<lparr>Star.name = ''Sun'', temperature = PyInt 5778\<rparr> =
   Inr ''Sun (Temperature: 5778K)''"
proof -
  have "\<not> 10 ^ int_max_str_digits \<le> \<bar>5778 :: int\<bar>"
    by (rule small_int) simp
  then show ?thesis
    by (simp add: Star_str_def str_int_def str_nat_step str_nat_digit digit_def)
qed



subsection \<open>The program\<close>

text \<open>
  \<^verbatim>\<open>main\<close> ends in \<^verbatim>\<open>UnboundLocalError\<close> whenever the constructor has raised. When the
  constructor has returned a record, \<^verbatim>\<open>main\<close> returns, unless the deserialization raises
  an exception that no clause catches.
\<close>

lemma main_not_constructed:
  assumes "AstronomicalBody_kw lib (args_name args) (args_radius args)
             (atmosphere_value (args_atmosphere args)) = Inl e"
  shows "snd (main lib args) = Inl (UnboundLocalError ''body'')"
proof -
  from assms obtain out where "except e = Inl out"
    by (auto dest!: kw_Inl)
  with assms show ?thesis
    by (simp add: main_def try_block_def gui_def sun_text)
qed

lemma main_constructed:
  assumes "AstronomicalBody_kw lib (args_name args) (args_radius args)
             (atmosphere_value (args_atmosphere args)) = Inr b"
  shows "snd (main lib args) = Inr () \<or> snd (main lib args) = Inl OverflowError"
proof (cases "from_json lib (to_json lib b)")
  case (Inl e)
  then consider out where "except e = Inl out" | "e = OverflowError"
    by (auto dest!: from_json_Inl)
  then show ?thesis
  proof cases
    case 1
    with assms Inl show ?thesis
      by (simp add: main_def try_block_def gui_def sun_text Let_def)
  next
    case 2
    with assms Inl show ?thesis
      by (simp add: main_def try_block_def Let_def)
  qed
next
  case (Inr b')
  with assms show ?thesis
    by (simp add: main_def try_block_def gui_def sun_text Let_def)
qed

section \<open>The claims of the specification\<close>

text \<open>
  Claim C2. For every name among Mercury, Venus, Earth and Mars (exact match), every
  radius greater than zero and every list of atmosphere texts, the construction succeeds,
  and the name, the radius and the atmosphere of the record are the given ones.
\<close>

theorem construct_valid:
  assumes "n \<in> {''Mercury'', ''Venus'', ''Earth'', ''Mars''}" and "0 < r"
  shows "construct lib n r a = Inr \<lparr>name = n, radius = r, atmosphere_composition = a\<rparr>"
  using assms by (rule construct_member)

theorem construct_valid_witness:
  "''Earth'' \<in> {''Mercury'', ''Venus'', ''Earth'', ''Mars''} \<and> (0::real) < 6371 \<and>
   construct example_library ''Earth'' 6371 [''N2'', ''O2''] =
     Inr \<lparr>name = ''Earth'', radius = 6371, atmosphere_composition = [''N2'', ''O2'']\<rparr>"
  using construct_valid [of "''Earth''" 6371 example_library "[''N2'', ''O2'']"] by simp

text \<open>
  Claim C3. For every name outside the four, whatever the radius and whatever is passed
  as the atmosphere, the construction fails with \<^verbatim>\<open>InvalidPlanetNameException\<close>, and
  the exception carries exactly the rejected name.
\<close>

theorem construct_other_name_raises:
  assumes "n \<notin> {''Mercury'', ''Venus'', ''Earth'', ''Mars''}"
  shows "AstronomicalBody_kw lib n r v = Inl (InvalidPlanetNameException n) \<and>
         construct lib n r a = Inl (InvalidPlanetNameException n) \<and>
         planet_name (InvalidPlanetNameException n) = Some n"
  using assms by (simp add: construct_def construct_other_name)

theorem construct_other_name_raises_witness:
  "''Pluto'' \<notin> {''Mercury'', ''Venus'', ''Earth'', ''Mars''} \<and>
   AstronomicalBody_kw example_library ''Pluto'' 1188 PyNone =
     Inl (InvalidPlanetNameException ''Pluto'') \<and>
   construct example_library ''Pluto'' 1188 [''N2''] =
     Inl (InvalidPlanetNameException ''Pluto'') \<and>
   planet_name (InvalidPlanetNameException ''Pluto'') = Some ''Pluto''"
  using construct_other_name_raises [of "''Pluto''" example_library 1188 PyNone "[''N2'']"]
  by simp

text \<open>
  Claim C4 says that a radius less than or equal to zero makes the construction fail
  with a \<^verbatim>\<open>ValidationError\<close> whatever the name is. The name is validated first, and
  its exception leaves the constructor before the radius is looked at: with the name
  Pluto and the radius -1 the failure is an \<^verbatim>\<open>InvalidPlanetNameException\<close>.
\<close>

theorem construct_pluto_negative_radius:
  "(- 1 :: real) \<le> 0 \<and>
   construct example_library ''Pluto'' (- 1) [''N2''] =
     Inl (InvalidPlanetNameException ''Pluto'') \<and>
   \<not> raises_ValidationError (construct example_library ''Pluto'' (- 1) [''N2''])"
  by (simp add: construct_def construct_other_name)

text \<open>
  Claim C4, amended. For every radius less than or equal to zero and every name among
  the four, the construction fails with a \<^verbatim>\<open>ValidationError\<close> that lists the
  violations of all fields: the one of the radius when the atmosphere is a list of
  texts, and the ones of the radius and of the atmosphere when the atmosphere is
  \<^verbatim>\<open>None\<close>.
\<close>

theorem construct_nonpositive_radius:
  assumes "n \<in> {''Mercury'', ''Venus'', ''Earth'', ''Mars''}" and "r \<le> 0"
  shows "construct lib n r a = Inl (ValidationError [([Field ''radius''], not_gt 0)]) \<and>
         AstronomicalBody_kw lib n r PyNone =
           Inl (ValidationError [([Field ''radius''], not_gt 0),
                                 ([Field ''atmosphere_composition''], type_error)])"
  using assms
  by (simp add: construct_def AstronomicalBody_kw_def
      init_nonpos_radius [where x = "PyFloat r"] dict_get_kw
      atmosphere_field_strs atmosphere_field_None)

theorem construct_nonpositive_radius_witness:
  "''Mars'' \<in> {''Mercury'', ''Venus'', ''Earth'', ''Mars''} \<and> (- 100 :: real) \<le> 0 \<and>
   construct example_library ''Mars'' (- 100) [] =
     Inl (ValidationError [([Field ''radius''], not_gt 0)]) \<and>
   AstronomicalBody_kw example_library ''Mars'' (- 100) PyNone =
     Inl (ValidationError [([Field ''radius''], not_gt 0),
                           ([Field ''atmosphere_composition''], type_error)])"
  using construct_nonpositive_radius [of "''Mars''" "- 100" example_library "[]"] by simp

text \<open>
  Claim C5. A payload that denotes an object with a name, a radius and a list of texts
  as atmosphere, and whose radius is less than or equal to zero or whose name is outside
  the four, fails in deserialization exactly as the construction from these three values
  fails: with \<^verbatim>\<open>InvalidPlanetNameException\<close> when the name is outside the four, with
  \<^verbatim>\<open>ValidationError\<close> otherwise. No record is returned. The radius of the payload is
  a float, or an \<^verbatim>\<open>int\<close> of absolute value at most \<open>2\<^sup>5\<^sup>3\<close>, which is the float of the
  same value.
\<close>

theorem from_json_invalid:
  assumes "json_loads lib payload = Some (PyDict data)"
    and "dict_get data ''name'' = Some (PyStr n)"
    and "dict_get data ''radius'' = Some (PyNum x)"
    and "x = PyFloat r \<or> x = PyInt i \<and> \<bar>i\<bar> \<le> 2 ^ 53 \<and> r = of_int i"
    and "dict_get data ''atmosphere_composition'' = Some (PyList (map PyStr a))"
    and "r \<le> 0 \<or> n \<notin> {''Mercury'', ''Venus'', ''Earth'', ''Mars''}"
  shows "from_json lib payload = construct lib n r a \<and>
         construct lib n r a =
           (if n \<in> {''Mercury'', ''Venus'', ''Earth'', ''Mars''}
            then Inl (ValidationError [([Field ''radius''], not_gt 0)])
            else Inl (InvalidPlanetNameException n))"
proof
  have "from_json lib payload = AstronomicalBody_init lib data"
    using assms(1) by (rule from_json_object)
  also have "\<dots> = construct lib n r a"
    using assms(2,3) exact_float_cases [OF assms(4)] assms(5) by (rule init_exact)
  finally show "from_json lib payload = construct lib n r a" .
next
  show "construct lib n r a =
           (if n \<in> {''Mercury'', ''Venus'', ''Earth'', ''Mars''}
            then Inl (ValidationError [([Field ''radius''], not_gt 0)])
            else Inl (InvalidPlanetNameException n))"
  proof (cases "n \<in> {''Mercury'', ''Venus'', ''Earth'', ''Mars''}")
    case True
    with assms(6) have "r \<le> 0" by blast
    with True show ?thesis
      by (simp add: construct_def AstronomicalBody_kw_def
          init_nonpos_radius [where x = "PyFloat r"] dict_get_kw atmosphere_field_strs)
  next
    case False
    then show ?thesis
      by (simp add: construct_def construct_other_name)
  qed
qed

theorem from_json_invalid_witness:
  "json_loads example_library mars_text = Some mars_object \<and>
   from_json example_library mars_text = construct example_library ''Mars'' (- 100) [] \<and>
   construct example_library ''Mars'' (- 100) [] =
     Inl (ValidationError [([Field ''radius''], not_gt 0)]) \<and>
   json_loads example_library pluto_text = Some pluto_object \<and>
   from_json example_library pluto_text = construct example_library ''Pluto'' 1188 [''N2''] \<and>
   construct example_library ''Pluto'' 1188 [''N2''] =
     Inl (InvalidPlanetNameException ''Pluto'')"
proof -
  let ?mars = "[(''name'', PyStr ''Mars''), (''radius'', PyNum (PyInt (- 100))),
             (''atmosphere_composition'', PyList [])]"
  let ?pluto = "[(''name'', PyStr ''Pluto''), (''radius'', PyNum (PyFloat 1188)),
             (''atmosphere_composition'', PyList [PyStr ''N2''])]"
  have m: "json_loads example_library mars_text = Some (PyDict ?mars)"
    by (simp only: example_loads mars_object_def)
  have p: "json_loads example_library pluto_text = Some (PyDict ?pluto)"
    by (simp only: example_loads pluto_object_def)
  have ma: "dict_get ?mars ''atmosphere_composition'' = Some (PyList (map PyStr []))"
    by (simp add: dict_get_kw)
  have pa: "dict_get ?pluto ''atmosphere_composition'' = Some (PyList (map PyStr [''N2'']))"
    by (simp add: dict_get_kw)
  have mr: "PyInt (- 100) = PyFloat (- 100) \<or>
      PyInt (- 100) = PyInt (- 100) \<and> \<bar>- 100 :: int\<bar> \<le> 2 ^ 53 \<and> (- 100 :: real) = of_int (- 100)"
    by simp
  have pr: "PyFloat 1188 = PyFloat 1188 \<or>
      PyFloat 1188 = PyInt 0 \<and> \<bar>0 :: int\<bar> \<le> 2 ^ 53 \<and> (1188 :: real) = of_int 0"
    by simp
  from from_json_invalid [OF m dict_get_kw(1) dict_get_kw(2) mr ma]
       from_json_invalid [OF p dict_get_kw(1) dict_get_kw(2) pr pa]
  show ?thesis by (simp add: example_loads)
qed

text \<open>
  Claim C6 says that a record keeps the two constraints for ever because it is immutable
  and nothing can set a field. The class leaves pydantic's defaults in place, under
  which a field can be assigned without validation: the record constructed for Earth
  no longer satisfies the constraints after \<^verbatim>\<open>body.radius = -1\<close>.
\<close>

theorem setattr_radius_breaks_constraints:
  "construct example_library ''Earth'' 6371 [''N2'', ''O2''] =
     Inr \<lparr>name = ''Earth'', radius = 6371, atmosphere_composition = [''N2'', ''O2'']\<rparr> \<and>
   \<not> constraints (setattr_radius
        \<lparr>name = ''Earth'', radius = 6371, atmosphere_composition = [''N2'', ''O2'']\<rparr> (- 1))"
  by (simp add: construct_member constraints_def setattr_radius_def)

text \<open>
  Claim C6, amended. Every record that the constructor or the deserialization returns
  satisfies both constraints (name among the four, radius greater than zero) when it
  is returned.
\<close>

theorem returned_record_constraints:
  assumes "AstronomicalBody_init lib data = Inr b \<or> from_json lib payload = Inr b"
  shows "constraints b"
  using assms
  by (auto simp: from_json_def parse_raw_def parse_obj_def
      split: option.splits pyval.splits dest: init_constraints)

theorem returned_record_constraints_witness:
  "AstronomicalBody_init example_library
     [(''name'', PyStr ''Earth''), (''radius'', PyNum (PyFloat 6371)),
      (''atmosphere_composition'', PyList (map PyStr [''N2'', ''O2'']))] =
     Inr \<lparr>name = ''Earth'', radius = 6371, atmosphere_composition = [''N2'', ''O2'']\<rparr> \<and>
   constraints \<lparr>name = ''Earth'', radius = 6371, atmosphere_composition = [''N2'', ''O2'']\<rparr>"
proof -
  have c: "AstronomicalBody_init example_library
     [(''name'', PyStr ''Earth''), (''radius'', PyNum (PyFloat 6371)),
      (''atmosphere_composition'', PyList (map PyStr [''N2'', ''O2'']))] =
     Inr \<lparr>name = ''Earth'', radius = 6371, atmosphere_composition = [''N2'', ''O2'']\<rparr>"
    by (simp add: init_valid [where x = "PyFloat 6371"] dict_get_kw)
  from c returned_record_constraints [OF disjI1, OF c] show ?thesis
    by simp
qed




text \<open>
  Claim C9 says that the program recovers from a failed construction and runs to its
  end. For the command line \<^verbatim>\<open>--name Pluto --radius 1188.0 --atmosphere N2\<close> it prints
  the message of the exception and the star, opens the window, and then ends in an
  \<^verbatim>\<open>UnboundLocalError\<close> at line 100, before any text is shown.
\<close>

theorem main_pluto:
  "main lib pluto_args =
     ([Print [Text ''Invalid planet name: Pluto''],
       Print [Text ''Sun (Temperature: 5778K)''],
       Dpg create_context, Dpg (window ''Astronomical GUI'')],
      Inl (UnboundLocalError ''body''))"
  by (simp add: main_def try_block_def pluto_args_def construct_other_name
      message_def sun_text gui_def)

text \<open>
  Claim C10. A payload that denotes an object with the three keys of the model, with
  valid values, and with any further keys is accepted: the record returned has the
  three values, and it is the record that the construction from them returns. The radius
  of the payload is a float, or an \<^verbatim>\<open>int\<close> of absolute value at most \<open>2\<^sup>5\<^sup>3\<close>, which is
  the float of the same value.
\<close>

theorem from_json_extra_keys:
  assumes "json_loads lib payload = Some (PyDict data)"
    and "dict_get data ''name'' = Some (PyStr n)"
    and "n \<in> {''Mercury'', ''Venus'', ''Earth'', ''Mars''}"
    and "dict_get data ''radius'' = Some (PyNum x)"
    and "x = PyFloat r \<or> x = PyInt i \<and> \<bar>i\<bar> \<le> 2 ^ 53 \<and> r = of_int i" and "0 < r"
    and "dict_get data ''atmosphere_composition'' = Some (PyList (map PyStr a))"
  shows "from_json lib payload =
           Inr \<lparr>name = n, radius = r, atmosphere_composition = a\<rparr> \<and>
         from_json lib payload = construct lib n r a"
proof -
  have "from_json lib payload = AstronomicalBody_init lib data"
    using assms(1) by (rule from_json_object)
  also have "\<dots> = construct lib n r a"
    using assms(2,4) exact_float_cases [OF assms(5)] assms(7) by (rule init_exact)
  finally have eq: "from_json lib payload = construct lib n r a" .
  moreover have "construct lib n r a =
      Inr \<lparr>name = n, radius = r, atmosphere_composition = a\<rparr>"
    using assms(3,6) by (rule construct_member)
  ultimately show ?thesis by simp
qed

theorem from_json_extra_keys_witness:
  "json_loads example_library venus_text = Some venus_object \<and>
   from_json example_library venus_text =
     Inr \<lparr>name = ''Venus'', radius = 6052, atmosphere_composition = [''CO2'', ''N2'']\<rparr> \<and>
   from_json example_library venus_text =
     construct example_library ''Venus'' 6052 [''CO2'', ''N2'']"
proof -
  let ?data = "[(''moons'', PyNum (PyInt 0)), (''name'', PyStr ''Venus''),
             (''radius'', PyNum (PyFloat 6052)),
             (''atmosphere_composition'', PyList [PyStr ''CO2'', PyStr ''N2'']),
             (''retrograde'', PyBool True)]"
  have l: "json_loads example_library venus_text = Some (PyDict ?data)"
    by (simp only: example_loads venus_object_def)
  have n: "dict_get ?data ''name'' = Some (PyStr ''Venus'')"
    by (simp add: dict_get_def)
  have r: "dict_get ?data ''radius'' = Some (PyNum (PyFloat 6052))"
    by (simp add: dict_get_def)
  have a: "dict_get ?data ''atmosphere_composition'' = Some (PyList (map PyStr [''CO2'', ''N2'']))"
    by (simp add: dict_get_def)
  have m: "''Venus'' \<in> {''Mercury'', ''Venus'', ''Earth'', ''Mars''}"
    by simp
  have e: "PyFloat 6052 = PyFloat 6052 \<or>
      PyFloat 6052 = PyInt 0 \<and> \<bar>0 :: int\<bar> \<le> 2 ^ 53 \<and> (6052 :: real) = of_int 0"
    by simp
  have p: "(0::real) < 6052"
    by simp
  from from_json_extra_keys [OF l n m r e p a] example_loads(3)
  show ?thesis by auto
qed

end
